theory Spec2Isabelle
  imports Main
begin

section \<open>JavaScript values used by the handlers\<close>

text \<open>
  An optional string property (\<open>string | undefined\<close>) is a \<open>string option\<close>.
  The handlers test such values with \<open>!x\<close>, which is true for \<open>undefined\<close> and
  for the empty string.
\<close>

definition truthy :: "string option \<Rightarrow> bool" where
  "truthy v = (case v of None \<Rightarrow> False | Some s \<Rightarrow> s \<noteq> [])"

text \<open>
  \<open>String.prototype.split(' ')\<close>: the pieces between single spaces, empty pieces
  included; a string with \<open>n\<close> spaces has \<open>n + 1\<close> pieces (\<open>''.split(' ')\<close> is \<open>['']\<close>).
\<close>

fun js_split :: "string \<Rightarrow> string list" where
  "js_split [] = [Nil]"
| "js_split (c # cs) =
     (if c = CHR '' '' then [] # js_split cs
      else (c # hd (js_split cs)) # tl (js_split cs))"

section \<open>Token verifier (auth middleware)\<close>

text \<open>
  \<open>extractToken\<close> of \<open>AuthMiddleware\<close>, on the value of
  \<open>req.headers.authorization\<close>:
  \<^verbatim>\<open>
    if (!authHeader) return null;
    const parts = authHeader.split(' ');
    if (parts.length !== 2 || parts[0] !== 'Bearer') return null;
    return parts[1];
  \<close>
\<close>

definition extractToken :: "string option \<Rightarrow> string option" where
  "extractToken authHeader =
     (case authHeader of
        None \<Rightarrow> None
      | Some h \<Rightarrow>
          if h = [] then None
          else (let parts = js_split h in
                if length parts \<noteq> 2 \<or> parts ! 0 \<noteq> ''Bearer'' then None
                else Some (parts ! 1)))"

text \<open>
  The key set \<open>pems\<close> of \<open>AuthMiddleware\<close> is a plain object
  (\<open>{ [key: string]: string } = {}\<close>) used as a dictionary from key id to PEM
  text. Its own properties are a map; log lines are kept in the order they are
  written.
\<close>

datatype log_entry = LogInfo string | LogError string













text \<open>
  The claims of a token (\<open>DecodedToken\<close>) and the request as the middleware sees it:
  the \<open>Authorization\<close> header, and the \<open>user\<close> and \<open>accessToken\<close> it attaches.
\<close>

record DecodedToken =
  tok_sub :: string
  tok_email :: string
  tok_username :: string
  tok_exp :: nat
  tok_iat :: nat

record AuthRequest =
  authorization :: "string option"
  user :: "DecodedToken option"
  req_accessToken :: "string option"

text \<open>
  The \<open>jsonwebtoken\<close> package is a parameter. \<open>jwt.decode(token, {complete: true})\<close>
  gives \<open>null\<close> for text that is not a token, else the unverified header, of which
  the code reads \<open>kid\<close>; it throws when the header says \<open>typ: JWT\<close> and the
  payload is not JSON. \<open>jwt.verify(token, key, callback)\<close> is handed whatever the
  lookup gave. It calls back with an error (a signature that does not verify is a
  \<open>JsonWebTokenError\<close>, a token past its \<open>exp\<close> a \<open>TokenExpiredError\<close>) or
  with the verified claims; it may also throw, and handed a function it takes it for
  a key provider and may never call back.
\<close>

datatype verify_error = JsonWebTokenError string | TokenExpiredError | NotBeforeError








section \<open>OIDC service and OAuth controller\<close>

text \<open>
  \<open>OAuthSession\<close>, the value of \<open>req.session.oauth\<close>; every property is optional.
  The session of a request is that value or \<open>undefined\<close>.
\<close>

type_synonym userinfo = "(string \<times> string) list"

record OAuthSession =
  nonce :: "string option"
  state :: "string option"
  userInfo :: "userinfo option"
  accessToken :: "string option"
  idToken :: "string option"
  refreshToken :: "string option"

type_synonym session = "OAuthSession option"

text \<open>\<open>req.session.oauth?.nonce\<close> and \<open>req.session.oauth?.state\<close>.\<close>

definition session_nonce :: "session \<Rightarrow> string option" where
  "session_nonce s = (case s of None \<Rightarrow> None | Some oa \<Rightarrow> nonce oa)"

definition session_state :: "session \<Rightarrow> string option" where
  "session_state s = (case s of None \<Rightarrow> None | Some oa \<Rightarrow> state oa)"

text \<open>
  The three states of the flow, read off the session as the handlers read it:
  \<open>home\<close> and \<open>profile\<close> test \<open>req.session.oauth?.userInfo\<close>, \<open>callback\<close> tests
  \<open>nonce\<close> and \<open>state\<close>.
\<close>

definition Authenticated :: "session \<Rightarrow> bool" where
  "Authenticated s = (case s of None \<Rightarrow> False | Some oa \<Rightarrow> userInfo oa \<noteq> None)"

definition PendingCallback :: "session \<Rightarrow> bool" where
  "PendingCallback s =
     (case s of
        None \<Rightarrow> False
      | Some oa \<Rightarrow> truthy (nonce oa) \<and> truthy (state oa) \<and> userInfo oa = None)"

definition Anonymous :: "session \<Rightarrow> bool" where
  "Anonymous s = (\<not> Authenticated s \<and> \<not> PendingCallback s)"

text \<open>
  The errors the flow throws. The first two are the \<open>Error\<close> objects the source
  builds itself (\<open>'OIDC client not initialized'\<close>, \<open>'Session state missing'\<close>); the
  others are what the \<open>openid-client\<close> package rejects with.
\<close>

datatype error =
    ServiceNotInitialized
  | SessionStateMissing
  | CallbackValidationFailed
  | ProviderError string

text \<open>
  The parameters of the callback request, the token set and the checks handed to
  \<open>client.callback\<close>. \<open>client.callbackParams(req)\<close> only reads the parameters off
  the request, so the handler below is given them directly.
\<close>

record CallbackParams =
  p_code :: "string option"
  p_state :: "string option"

record TokenSet =
  access_token :: "string option"
  id_token :: "string option"
  refresh_token :: "string option"

record Checks =
  chk_nonce :: string
  chk_state :: string

text \<open>
  The \<open>Client\<close> of \<open>openid-client\<close>, as far as the service calls it. It is a
  parameter of the service: a record of the three methods used.
\<close>

record Client =
  authorizationUrl :: "string \<Rightarrow> string \<Rightarrow> string \<Rightarrow> string"
  client_callback :: "string \<Rightarrow> CallbackParams \<Rightarrow> Checks \<Rightarrow> error + TokenSet"
  client_userinfo :: "string option \<Rightarrow> error + userinfo"

text \<open>
  The entries of \<open>config\<close> the flow reads: \<open>config.oauth.callbackUrl\<close>,
  \<open>config.oauth.logoutUrl\<close>, \<open>config.oauth.cognitoDomain\<close>, \<open>config.aws.region\<close>
  and \<open>config.cognito.clientId\<close>.
\<close>

record OAuthConfig =
  oauth_callbackUrl :: string
  oauth_logoutUrl :: string
  oauth_cognitoDomain :: string
  aws_region :: string
  cognito_clientId :: string

record OIDCService =
  client :: "Client option"
  config :: OAuthConfig

text \<open>Outbound calls of a handler, in the order they are made.\<close>

datatype call = ClientCallback string CallbackParams Checks | ClientUserinfo "string option"

text \<open>\<open>OIDCService.getClient\<close>.\<close>

definition getClient :: "OIDCService \<Rightarrow> error + Client" where
  "getClient this =
     (case client this of None \<Rightarrow> Inl ServiceNotInitialized | Some c \<Rightarrow> Inr c)"

text \<open>\<open>OIDCService.getAuthorizationUrl\<close>, scope \<open>'email openid phone profile'\<close>.\<close>

definition getAuthorizationUrl :: "OIDCService \<Rightarrow> string \<Rightarrow> string \<Rightarrow> error + string" where
  "getAuthorizationUrl this st nn =
     (case client this of
        None \<Rightarrow> Inl ServiceNotInitialized
      | Some c \<Rightarrow> Inr (authorizationUrl c ''email openid phone profile'' st nn))"

text \<open>
  \<open>OIDCService.callback\<close>: the guard, then \<open>client.callback(callbackUrl, params,
  {nonce, state})\<close>, whose rejection is rethrown. The second component lists the calls
  made.
\<close>

definition service_callback ::
  "OIDCService \<Rightarrow> CallbackParams \<Rightarrow> string \<Rightarrow> string \<Rightarrow> (error + TokenSet) \<times> call list" where
  "service_callback this params st nn =
     (case client this of
        None \<Rightarrow> (Inl ServiceNotInitialized, [])
      | Some c \<Rightarrow>
          (let checks = \<lparr>chk_nonce = nn, chk_state = st\<rparr> in
           (client_callback c (oauth_callbackUrl (config this)) params checks,
            [ClientCallback (oauth_callbackUrl (config this)) params checks])))"

text \<open>\<open>OIDCService.getUserInfo\<close>.\<close>

definition getUserInfo ::
  "OIDCService \<Rightarrow> string option \<Rightarrow> (error + userinfo) \<times> call list" where
  "getUserInfo this token =
     (case client this of
        None \<Rightarrow> (Inl ServiceNotInitialized, [])
      | Some c \<Rightarrow> (client_userinfo c token, [ClientUserinfo token]))"

text \<open>
  \<open>OIDCService.getLogoutUrl\<close>; \<open>encodeURIComponent\<close> is the JavaScript built-in,
  a parameter here.
\<close>

definition getLogoutUrl :: "(string \<Rightarrow> string) \<Rightarrow> OIDCService \<Rightarrow> string \<Rightarrow> string" where
  "getLogoutUrl encodeURIComponent this cid =
     ''https://'' @ oauth_cognitoDomain (config this) @ ''.auth.'' @
     aws_region (config this) @ ''.amazoncognito.com/logout?client_id='' @ cid @
     ''&logout_uri='' @ encodeURIComponent (oauth_logoutUrl (config this))"

text \<open>
  What a handler of the controller sends: a redirect, a rendered view, or the error
  view with a status, the handler's message and the error caught. The lines that
  \<open>login\<close>, \<open>callback\<close> and the service log on an error change no result and are
  left out; the log of \<open>logout\<close> is kept.
\<close>

datatype view =
    HomeView bool "userinfo option"
  | ProfileView userinfo "string option" "string option"

datatype response =
    Redirect string
  | Render view
  | RenderError nat string error

text \<open>\<open>OAuthController.home\<close> and \<open>OAuthController.profile\<close>: they only read the session.\<close>

definition home :: "session \<Rightarrow> session \<times> response" where
  "home s =
     (case s of
        None \<Rightarrow> (s, Render (HomeView False None))
      | Some oa \<Rightarrow> (s, Render (HomeView (userInfo oa \<noteq> None) (userInfo oa))))"

definition profile :: "session \<Rightarrow> session \<times> response" where
  "profile s =
     (case s of
        None \<Rightarrow> (s, Redirect ''/oauth/login'')
      | Some oa \<Rightarrow>
          (case userInfo oa of
             None \<Rightarrow> (s, Redirect ''/oauth/login'')
           | Some ui \<Rightarrow> (s, Render (ProfileView ui (accessToken oa) (idToken oa)))))"

text \<open>
  \<open>OAuthController.login\<close>. The two values of \<open>generators.nonce()\<close> and
  \<open>generators.state()\<close> are inputs. The session is assigned before
  \<open>getAuthorizationUrl\<close> is called, so it is assigned also when that call throws.
\<close>

definition login :: "OIDCService \<Rightarrow> string \<Rightarrow> string \<Rightarrow> session \<Rightarrow> session \<times> response" where
  "login oidcService nn st s =
     (let s' = Some \<lparr>nonce = Some nn, state = Some st, userInfo = None,
                     accessToken = None, idToken = None, refreshToken = None\<rparr>
      in case getAuthorizationUrl oidcService st nn of
           Inl e \<Rightarrow> (s', RenderError 500 ''Failed to initiate login'' e)
         | Inr authUrl \<Rightarrow> (s', Redirect authUrl))"

text \<open>
  The \<open>try\<close> block of \<open>OAuthController.callback\<close>: \<open>getClient()\<close> first, then the
  test \<open>!req.session.oauth?.nonce || !req.session.oauth?.state\<close> (an absent
  session, an absent value and the empty string all fail it), the exchange, the
  user info, and the assignment
  \<open>{...req.session.oauth, userInfo, accessToken, idToken, refreshToken}\<close>.
\<close>

definition callback_try ::
  "OIDCService \<Rightarrow> CallbackParams \<Rightarrow> session \<Rightarrow> (error + session) \<times> call list" where
  "callback_try oidcService params s =
     (case getClient oidcService of
        Inl e \<Rightarrow> (Inl e, [])
      | Inr c \<Rightarrow>
          (case s of
             None \<Rightarrow> (Inl SessionStateMissing, [])
           | Some oa \<Rightarrow>
               (case (nonce oa, state oa) of
                  (Some nn, Some st) \<Rightarrow>
                    if nn = [] \<or> st = [] then (Inl SessionStateMissing, [])
                    else
                      (case service_callback oidcService params st nn of
                         (Inl e, calls) \<Rightarrow> (Inl e, calls)
                       | (Inr tokenSet, calls) \<Rightarrow>
                           (case getUserInfo oidcService (access_token tokenSet) of
                              (Inl e, calls') \<Rightarrow> (Inl e, calls @ calls')
                            | (Inr ui, calls') \<Rightarrow>
                                (Inr (Some (oa\<lparr>userInfo := Some ui,
                                                accessToken := access_token tokenSet,
                                                idToken := id_token tokenSet,
                                                refreshToken := refresh_token tokenSet\<rparr>)),
                                 calls @ calls')))
                | _ \<Rightarrow> (Inl SessionStateMissing, []))))"

text \<open>
  \<open>OAuthController.callback\<close>: the \<open>catch\<close> renders the error view with status 500
  and leaves the session as it was.
\<close>

definition callback ::
  "OIDCService \<Rightarrow> CallbackParams \<Rightarrow> session \<Rightarrow> session \<times> response \<times> call list" where
  "callback oidcService params s =
     (case callback_try oidcService params s of
        (Inl e, calls) \<Rightarrow> (s, RenderError 500 ''Authentication failed'' e, calls)
      | (Inr s', calls) \<Rightarrow> (s', Redirect ''/oauth'', calls))"

text \<open>
  \<open>OAuthController.logout\<close>. \<open>req.session.destroy\<close> belongs to \<open>express-session\<close>
  and is a parameter: applied to the stored session it gives the error it calls back
  with, if any, and what the store then holds for the session (nothing, when it was
  removed). The handler logs the error and redirects in every case; it does nothing
  else to the session, and it does not wait for the callback. The steps are listed
  in the order the handler takes them.
\<close>

datatype step = DestroySession | SendRedirect string

record logout_result =
  session_after :: session
  log_after :: "log_entry list"
  steps :: "step list"
  sent :: response

definition logout ::
  "(session \<Rightarrow> string option \<times> session) \<Rightarrow> (string \<Rightarrow> string) \<Rightarrow> OIDCService \<Rightarrow>
     session \<Rightarrow> logout_result" where
  "logout destroy encodeURIComponent oidcService s =
     (let (err, s') = destroy s;
          url = getLogoutUrl encodeURIComponent oidcService
                  (cognito_clientId (config oidcService))
      in \<lparr>session_after = s',
          log_after =
            (case err of None \<Rightarrow> [] | Some e \<Rightarrow> [LogError ''Session destroy error:'']),
          steps = [DestroySession, SendRedirect url],
          sent = Redirect url\<rparr>)"

text \<open>
  The identity provider as the flow meets it: the token endpoint answers a code with
  a token set and the \<open>nonce\<close> claim embedded in its ID token, or with an error.
\<close>

record token_response =
  tr_tokens :: TokenSet
  tr_nonce :: "string option"

record provider =
  authorization_endpoint :: "string \<Rightarrow> string \<Rightarrow> string \<Rightarrow> string"
  token_endpoint :: "string \<Rightarrow> string option \<Rightarrow> error + token_response"
  userinfo_endpoint :: "string option \<Rightarrow> error + userinfo"

text \<open>
  Modelled from the spec: \<open>client.callback\<close> of the \<open>openid-client\<close> package,
  which the service calls and whose code is not in the repository. Section 4.2 of the
  specification: it "exchanges the authorization code for tokens via the provider's
  token endpoint, validating that the returned \<open>state\<close> matches exactly and that the
  ID token's embedded nonce matches; any mismatch fails closed with
  \<open>CallbackValidationFailed\<close>". The state is compared before the exchange; the nonce
  can only be compared after it, on the ID token the exchange returned.
\<close>

definition openid_client :: "provider \<Rightarrow> Client" where
  "openid_client idp =
     \<lparr>authorizationUrl = authorization_endpoint idp,
      client_callback = (\<lambda>redirect_uri params checks.
        if p_state params \<noteq> Some (chk_state checks) then Inl CallbackValidationFailed
        else (case token_endpoint idp redirect_uri (p_code params) of
                Inl e \<Rightarrow> Inl e
              | Inr tr \<Rightarrow>
                  if tr_nonce tr \<noteq> Some (chk_nonce checks) then Inl CallbackValidationFailed
                  else Inr (tr_tokens tr))),
      client_userinfo = userinfo_endpoint idp\<rparr>"

section \<open>Request validators\<close>

text \<open>
  The validators are chains of \<open>express-validator\<close>; the checks they name are those
  of \<open>validator.js\<close>. A chain runs every check on the field's value (\<open>''\<close> for an
  absent field) and reports each one that fails; a chain marked \<open>optional()\<close> is
  skipped for an absent field.
\<close>

definition toString :: "string option \<Rightarrow> string" where
  "toString v = (case v of None \<Rightarrow> [] | Some s \<Rightarrow> s)"

definition lower_chars :: "char list" where
  "lower_chars = ''abcdefghijklmnopqrstuvwxyz''"

definition upper_chars :: "char list" where
  "upper_chars = ''ABCDEFGHIJKLMNOPQRSTUVWXYZ''"

definition digit_chars :: "char list" where
  "digit_chars = ''0123456789''"

definition special_chars :: "char list" where
  "special_chars = ''@$!%*?&''"

text \<open>\<open>isLength({min, max})\<close>; \<open>max\<close> may be left out.\<close>

definition isLength :: "nat \<Rightarrow> nat option \<Rightarrow> string \<Rightarrow> bool" where
  "isLength mn mx str =
     (mn \<le> length str \<and> (case mx of None \<Rightarrow> True | Some m \<Rightarrow> length str \<le> m))"

text \<open>\<open>isAlphanumeric()\<close>, locale \<open>en-US\<close>: the pattern \<open>/^[0-9A-Z]+$/i\<close>.\<close>

definition isAlphanumeric :: "string \<Rightarrow> bool" where
  "isAlphanumeric str =
     (str \<noteq> [] \<and> list_all (\<lambda>c. c \<in> set (digit_chars @ upper_chars @ lower_chars)) str)"

text \<open>\<open>isAlpha()\<close>, locale \<open>en-US\<close>: the pattern \<open>/^[A-Z]+$/i\<close>.\<close>

definition isAlpha :: "string \<Rightarrow> bool" where
  "isAlpha str = (str \<noteq> [] \<and> list_all (\<lambda>c. c \<in> set (upper_chars @ lower_chars)) str)"

text \<open>
  A lookahead \<open>(?=.*[class])\<close> at the start of the text: \<open>.\<close> does not cross a line
  terminator, so the class must occur before the first one. Characters here are 8-bit,
  so the terminators are line feed and carriage return.
\<close>

definition line_terminator :: "char \<Rightarrow> bool" where
  "line_terminator c = (c = CHR 0x0A \<or> c = CHR 0x0D)"

definition lookahead :: "char list \<Rightarrow> string \<Rightarrow> bool" where
  "lookahead cls str = list_ex (\<lambda>c. c \<in> set cls) (takeWhile (\<lambda>c. \<not> line_terminator c) str)"

text \<open>
  The password pattern of \<open>signUpValidator\<close>:
  \<^verbatim>\<open>/^(?=.*[a-z])(?=.*[A-Z])(?=.*\d)(?=.*[@$!%*?&])[A-Za-z\d@$!%*?&]/\<close>
  After the four lookaheads it consumes one character of the listed classes; the
  pattern has no quantifier and no \<open>$\<close>, so nothing is asked of the rest.
\<close>

definition password_pattern :: "string \<Rightarrow> bool" where
  "password_pattern str =
     (lookahead lower_chars str \<and> lookahead upper_chars str \<and>
      lookahead digit_chars str \<and> lookahead special_chars str \<and>
      (case str of
         [] \<Rightarrow> False
       | c # cs \<Rightarrow> c \<in> set (upper_chars @ lower_chars @ digit_chars @ special_chars)))"

text \<open>The body of a signup request; every field may be absent.\<close>

record SignUpBody =
  email :: "string option"
  username :: "string option"
  password :: "string option"
  firstName :: "string option"
  lastName :: "string option"
  phoneNumber :: "string option"

text \<open>
  A failed check is reported as the field and the check (the message texts are left
  out). \<open>failing\<close> runs one check of a chain; \<open>optional\<close> skips a chain for an
  absent field.
\<close>

type_synonym failure = "string \<times> string"

definition failing :: "string \<Rightarrow> string \<Rightarrow> bool \<Rightarrow> failure list" where
  "failing field check ok = (if ok then [] else [(field, check)])"

definition optional :: "string option \<Rightarrow> failure list \<Rightarrow> failure list" where
  "optional v fs = (case v of None \<Rightarrow> [] | Some s \<Rightarrow> fs)"

text \<open>
  \<open>signUpValidator\<close>, chain by chain. \<open>isEmail\<close> and \<open>isMobilePhone('any')\<close> are
  parameters.
\<close>

definition signUpValidator ::
  "(string \<Rightarrow> bool) \<Rightarrow> (string \<Rightarrow> bool) \<Rightarrow> SignUpBody \<Rightarrow> failure list" where
  "signUpValidator isEmail isMobilePhone body =
     failing ''email'' ''isEmail'' (isEmail (toString (email body))) @
     failing ''username'' ''isLength'' (isLength 3 (Some 20) (toString (username body))) @
     failing ''username'' ''isAlphanumeric'' (isAlphanumeric (toString (username body))) @
     failing ''password'' ''isLength'' (isLength 8 None (toString (password body))) @
     failing ''password'' ''matches'' (password_pattern (toString (password body))) @
     optional (firstName body)
       (failing ''firstName'' ''isLength'' (isLength 1 (Some 50) (toString (firstName body))) @
        failing ''firstName'' ''isAlpha'' (isAlpha (toString (firstName body)))) @
     optional (lastName body)
       (failing ''lastName'' ''isLength'' (isLength 1 (Some 50) (toString (lastName body))) @
        failing ''lastName'' ''isAlpha'' (isAlpha (toString (lastName body)))) @
     optional (phoneNumber body)
       (failing ''phoneNumber'' ''isMobilePhone''
          (isMobilePhone (toString (phoneNumber body))))"

text \<open>A field is accepted when no check of its chain is reported.\<close>

definition accepted :: "string \<Rightarrow> failure list \<Rightarrow> bool" where
  "accepted field fs = list_all (\<lambda>f. fst f \<noteq> field) fs"

section \<open>Identity gateway endpoints\<close>

text \<open>
  An error of the provider SDK is an object told apart by its \<open>name\<close>. A handler
  answers with a status and a JSON body, or hands the error to \<open>next\<close>.
\<close>

record provider_error =
  err_name :: string
  err_message :: string

datatype 'a body = ErrorBody string | Message string | MessageData string 'a

datatype 'a reply = Json nat "'a body" | NextError provider_error

text \<open>
  The handlers of \<open>AuthController\<close> and \<open>UserController\<close> that translate a provider
  error, each as a function of what the service call gave: its result, or the error
  it threw.
\<close>

definition signUp :: "provider_error + 'a \<Rightarrow> 'a reply" where
  "signUp result =
     (case result of
        Inr r \<Rightarrow> Json 201 (MessageData ''User created successfully'' r)
      | Inl error \<Rightarrow>
          if err_name error = ''UsernameExistsException''
          then Json 409 (ErrorBody ''Username already exists'')
          else if err_name error = ''InvalidPasswordException''
          then Json 400 (ErrorBody ''Invalid password format'')
          else NextError error)"

definition signIn :: "provider_error + 'a \<Rightarrow> 'a reply" where
  "signIn result =
     (case result of
        Inr r \<Rightarrow> Json 200 (MessageData ''Sign in successful'' r)
      | Inl error \<Rightarrow>
          if err_name error = ''NotAuthorizedException''
          then Json 401 (ErrorBody ''Invalid username or password'')
          else if err_name error = ''UserNotConfirmedException''
          then Json 403 (ErrorBody ''User email not verified'')
          else NextError error)"

definition forgotPassword :: "provider_error + unit \<Rightarrow> unit reply" where
  "forgotPassword result =
     (case result of
        Inr r \<Rightarrow> Json 200 (Message ''Password reset code sent successfully'')
      | Inl error \<Rightarrow>
          if err_name error = ''UserNotFoundException''
          then Json 404 (ErrorBody ''User not found'')
          else NextError error)"

definition changePassword :: "provider_error + unit \<Rightarrow> unit reply" where
  "changePassword result =
     (case result of
        Inr r \<Rightarrow> Json 200 (Message ''Password changed successfully'')
      | Inl error \<Rightarrow>
          if err_name error = ''NotAuthorizedException''
          then Json 401 (ErrorBody ''Invalid current password'')
          else NextError error)"

definition refreshToken_handler :: "provider_error + 'a \<Rightarrow> 'a reply" where
  "refreshToken_handler result =
     (case result of
        Inr r \<Rightarrow> Json 200 (MessageData ''Token refreshed successfully'' r)
      | Inl error \<Rightarrow>
          if err_name error = ''NotAuthorizedException''
          then Json 401 (ErrorBody ''Invalid refresh token'')
          else NextError error)"

definition adminCreateUser :: "provider_error + 'a \<Rightarrow> 'a reply" where
  "adminCreateUser result =
     (case result of
        Inr r \<Rightarrow> Json 201 (MessageData ''User created successfully by admin'' r)
      | Inl error \<Rightarrow>
          if err_name error = ''UsernameExistsException''
          then Json 409 (ErrorBody ''Username already exists'')
          else NextError error)"

definition adminDeleteUser :: "provider_error + unit \<Rightarrow> unit reply" where
  "adminDeleteUser result =
     (case result of
        Inr r \<Rightarrow> Json 200 (Message ''User deleted successfully by admin'')
      | Inl error \<Rightarrow>
          if err_name error = ''UserNotFoundException''
          then Json 404 (ErrorBody ''User not found'')
          else NextError error)"

text \<open>
  The remaining handlers of \<open>AuthController\<close> and \<open>UserController\<close>.
\<close>

definition verifyEmail :: "provider_error + unit \<Rightarrow> unit reply" where
  "verifyEmail result =
     (case result of
        Inr r \<Rightarrow> Json 200 (Message ''Email verified successfully'')
      | Inl error \<Rightarrow>
          if err_name error = ''CodeMismatchException''
          then Json 400 (ErrorBody ''Invalid verification code'')
          else if err_name error = ''ExpiredCodeException''
          then Json 400 (ErrorBody ''Verification code has expired'')
          else NextError error)"

definition resendVerificationCode :: "provider_error + unit \<Rightarrow> unit reply" where
  "resendVerificationCode result =
     (case result of
        Inr r \<Rightarrow> Json 200 (Message ''Verification code sent successfully'')
      | Inl error \<Rightarrow> NextError error)"

definition resetPassword :: "provider_error + unit \<Rightarrow> unit reply" where
  "resetPassword result =
     (case result of
        Inr r \<Rightarrow> Json 200 (Message ''Password reset successfully'')
      | Inl error \<Rightarrow>
          if err_name error = ''CodeMismatchException''
          then Json 400 (ErrorBody ''Invalid reset code'')
          else if err_name error = ''ExpiredCodeException''
          then Json 400 (ErrorBody ''Reset code has expired'')
          else NextError error)"

definition signOut :: "provider_error + unit \<Rightarrow> unit reply" where
  "signOut result =
     (case result of
        Inr r \<Rightarrow> Json 200 (Message ''Sign out successful'')
      | Inl error \<Rightarrow> NextError error)"

definition getProfile :: "provider_error + 'a \<Rightarrow> 'a reply" where
  "getProfile result =
     (case result of
        Inr r \<Rightarrow> Json 200 (MessageData ''Profile retrieved successfully'' r)
      | Inl error \<Rightarrow> NextError error)"

definition updateProfile :: "provider_error + unit \<Rightarrow> unit reply" where
  "updateProfile result =
     (case result of
        Inr r \<Rightarrow> Json 200 (Message ''Profile updated successfully'')
      | Inl error \<Rightarrow> NextError error)"

definition deleteAccount :: "provider_error + unit \<Rightarrow> unit reply" where
  "deleteAccount result =
     (case result of
        Inr r \<Rightarrow> Json 200 (Message ''Account deleted successfully'')
      | Inl error \<Rightarrow> NextError error)"

definition listUsers :: "provider_error + 'a \<Rightarrow> 'a reply" where
  "listUsers result =
     (case result of
        Inr r \<Rightarrow> Json 200 (MessageData ''Users retrieved successfully'' r)
      | Inl error \<Rightarrow> NextError error)"

text \<open>
  Modelled from the spec: the generic error handler (\<open>errorHandler\<close> of
  \<open>error.middleware\<close>), which the application installs after the routes and whose
  code is not among the sources. Section 7 of the specification: "unrecognized errors
  propagate to a generic handler that logs full detail and returns an opaque 500 to
  the caller."
\<close>

definition errorHandler :: "provider_error \<Rightarrow> nat" where
  "errorHandler error = 500"

text \<open>The status the caller sees: the handler's own, or the generic handler's.\<close>

definition http_status :: "'a reply \<Rightarrow> nat" where
  "http_status r = (case r of Json status b \<Rightarrow> status | NextError error \<Rightarrow> errorHandler error)"

text \<open>
  \<open>CognitoService.signIn\<close>. The user pool is a parameter: \<open>InitiateAuth\<close> with the
  username and password gives an error or a response whose \<open>AuthenticationResult\<close> may
  be absent; \<open>GetUser\<close> with the access token gives an error or the user, kept
  here as the pool returns it. The service rethrows what the pool throws, and throws
  \<open>Error('Authentication failed')\<close> itself for an absent result.
\<close>

record SignInRequest =
  si_username :: string
  si_password :: string

record AuthenticationResult =
  AccessToken :: "string option"
  IdToken :: "string option"
  RefreshToken :: "string option"

record 'u SignInResponse =
  signed_user :: 'u
  tokens :: AuthenticationResult

record 'u user_pool =
  InitiateAuth :: "string \<Rightarrow> string \<Rightarrow> provider_error + AuthenticationResult option"
  GetUser :: "string option \<Rightarrow> provider_error + 'u"

definition CognitoService_signIn ::
  "'u user_pool \<Rightarrow> SignInRequest \<Rightarrow> provider_error + 'u SignInResponse" where
  "CognitoService_signIn pool data =
     (case InitiateAuth pool (si_username data) (si_password data) of
        Inl e \<Rightarrow> Inl e
      | Inr None \<Rightarrow> Inl \<lparr>err_name = ''Error'', err_message = ''Authentication failed''\<rparr>
      | Inr (Some ar) \<Rightarrow>
          (case GetUser pool (AccessToken ar) of
             Inl e \<Rightarrow> Inl e
           | Inr u \<Rightarrow> Inr \<lparr>signed_user = u, tokens = ar\<rparr>))"

text \<open>The tokens a reply carries, if any.\<close>

definition reply_tokens :: "'u SignInResponse reply \<Rightarrow> AuthenticationResult option" where
  "reply_tokens r =
     (case r of
        Json status (MessageData m d) \<Rightarrow> Some (tokens d)
      | _ \<Rightarrow> None)"

section \<open>Sample data\<close>






definition bearer :: "string \<Rightarrow> AuthRequest" where
  "bearer t = \<lparr>authorization = Some (''Bearer '' @ t), user = None, req_accessToken = None\<rparr>"


definition sample_config :: OAuthConfig where
  "sample_config =
     \<lparr>oauth_callbackUrl = ''http://localhost:3000/oauth/callback'',
      oauth_logoutUrl = ''http://localhost:3000'',
      oauth_cognitoDomain = ''idp'',
      aws_region = ''us-east-1'',
      cognito_clientId = ''client1''\<rparr>"

definition sample_tokens :: TokenSet where
  "sample_tokens = \<lparr>access_token = Some ''at'', id_token = Some ''it'',
                    refresh_token = Some ''rt''\<rparr>"

text \<open>
  The sample provider answers the code \<open>c1\<close> with tokens whose ID token embeds the
  nonce \<open>n1\<close>, and the code \<open>c2\<close> with an ID token embedding another nonce.
\<close>

definition sample_idp :: provider where
  "sample_idp =
     \<lparr>authorization_endpoint = (\<lambda>scope st nn. ''https://idp/authorize?state='' @ st),
      token_endpoint = (\<lambda>uri code.
        if code = Some ''c1'' then Inr \<lparr>tr_tokens = sample_tokens, tr_nonce = Some ''n1''\<rparr>
        else if code = Some ''c2'' then Inr \<lparr>tr_tokens = sample_tokens, tr_nonce = Some ''zz''\<rparr>
        else Inl (ProviderError ''invalid_grant'')),
      userinfo_endpoint = (\<lambda>t. if t = Some ''at'' then Inr [(''sub'', ''sub-alice'')]
                                else Inl (ProviderError ''invalid_token''))\<rparr>"

definition ready_service :: OIDCService where
  "ready_service = \<lparr>client = Some (openid_client sample_idp), config = sample_config\<rparr>"

definition cold_service :: OIDCService where
  "cold_service = \<lparr>client = None, config = sample_config\<rparr>"

definition pending_session :: session where
  "pending_session = Some \<lparr>nonce = Some ''n1'', state = Some ''s1'', userInfo = None,
                            accessToken = None, idToken = None, refreshToken = None\<rparr>"

definition authenticated_session :: session where
  "authenticated_session =
     Some \<lparr>nonce = Some ''n1'', state = Some ''s1'', userInfo = Some [(''sub'', ''sub-alice'')],
           accessToken = Some ''at'', idToken = Some ''it'', refreshToken = Some ''rt''\<rparr>"

definition failing_destroy :: "session \<Rightarrow> string option \<times> session" where
  "failing_destroy s = (Some ''store unreachable'', s)"

definition working_destroy :: "session \<Rightarrow> string option \<times> session" where
  "working_destroy s = (None, None)"

definition sample_body :: SignUpBody where
  "sample_body = \<lparr>email = Some ''a@b.com'', username = Some ''abc123'',
                  password = Some ''Aa1!aaaa'', firstName = None, lastName = None,
                  phoneNumber = None\<rparr>"

definition sample_pool :: "string user_pool" where
  "sample_pool =
     \<lparr>InitiateAuth = (\<lambda>u p.
        if u = ''abc123'' \<and> p = ''Aa1!aaaa''
        then Inr (Some \<lparr>AccessToken = Some ''at'', IdToken = Some ''it'',
                         RefreshToken = Some ''rt''\<rparr>)
        else Inl \<lparr>err_name = ''NotAuthorizedException'',
                  err_message = ''Incorrect username or password.''\<rparr>),
      GetUser = (\<lambda>t. Inr ''abc123'')\<rparr>"

section \<open>Properties of the token verifier\<close>

lemma js_split_not_Nil: "js_split s \<noteq> []"
  by (induction s) auto

lemma js_split_no_space: "CHR '' '' \<notin> set s \<Longrightarrow> js_split s = [s]"
  by (induction s) auto

lemma js_split_append:
  "CHR '' '' \<notin> set a \<Longrightarrow> js_split (a @ CHR '' '' # b) = a # js_split b"
  by (induction a) auto

lemma js_split_single: "js_split s = [p] \<Longrightarrow> s = p \<and> CHR '' '' \<notin> set p"
proof (induction s arbitrary: p)
  case Nil
  then show ?case by simp
next
  case (Cons c cs)
  then show ?case
    using js_split_not_Nil [of cs]
    by (cases "js_split cs") (auto split: if_splits)
qed

lemma js_split_pair:
  "js_split s = [a, b] \<Longrightarrow>
     s = a @ CHR '' '' # b \<and> CHR '' '' \<notin> set a \<and> CHR '' '' \<notin> set b"
proof (induction s arbitrary: a)
  case Nil
  then show ?case by simp
next
  case (Cons c cs)
  show ?case
  proof (cases "c = CHR '' ''")
    case True
    with Cons.prems have "a = []" and "js_split cs = [b]" by simp_all
    with True js_split_single [of cs b] show ?thesis by simp
  next
    case False
    with Cons.prems obtain p where p: "js_split cs = [p, b]" and a: "a = c # p"
      using js_split_not_Nil [of cs]
      by (cases "js_split cs") (auto split: if_splits)
    from Cons.IH [OF p] False a show ?thesis by simp
  qed
qed

lemma extractToken_Some:
  "extractToken (Some h) =
     (if length (js_split h) = 2 \<and> js_split h ! 0 = ''Bearer'' then Some (js_split h ! 1)
      else None)"
proof (cases h)
  case Nil
  then show ?thesis by (simp add: extractToken_def)
next
  case (Cons c cs)
  then show ?thesis by (simp add: extractToken_def Let_def del: js_split.simps)
qed

text \<open>
  C6. \<open>extractToken\<close> never raises: it returns none for an absent header, and
  for a present header it returns a token \<open>t\<close> exactly when the header is the word
  \<open>Bearer\<close>, one space, and \<open>t\<close> with no further space in it (exactly two
  space-separated parts, the first equal to \<open>Bearer\<close>); every other header value
  gives none.
\<close>

theorem extractToken_spec:
  "extractToken None = None \<and>
   (extractToken (Some h) = Some t \<longleftrightarrow> h = ''Bearer '' @ t \<and> CHR '' '' \<notin> set t) \<and>
   (extractToken (Some h) = None \<longleftrightarrow>
      \<not> (length (js_split h) = 2 \<and> js_split h ! 0 = ''Bearer''))"
proof -
  have fwd: "h = ''Bearer '' @ t \<and> CHR '' '' \<notin> set t" if "extractToken (Some h) = Some t"
  proof -
    from that have len: "length (js_split h) = 2" and b: "js_split h ! 0 = ''Bearer''"
      and t: "js_split h ! 1 = t"
      unfolding extractToken_Some by (simp_all split: if_splits)
    from len obtain x y where xy: "js_split h = [x, y]"
      by (auto simp: length_Suc_conv numeral_2_eq_2)
    with b t have "js_split h = [''Bearer'', t]" by simp
    from js_split_pair [OF this] show ?thesis by simp
  qed
  have bwd: "extractToken (Some h) = Some t" if "h = ''Bearer '' @ t" "CHR '' '' \<notin> set t"
  proof -
    have "js_split (''Bearer'' @ CHR '' '' # t) = ''Bearer'' # js_split t"
      by (rule js_split_append) simp
    with that have "js_split h = [''Bearer'', t]"
      by (simp add: js_split_no_space del: js_split.simps)
    then show ?thesis unfolding extractToken_Some by simp
  qed
  have none: "extractToken (Some h) = None \<longleftrightarrow>
      \<not> (length (js_split h) = 2 \<and> js_split h ! 0 = ''Bearer'')"
    unfolding extractToken_Some by simp
  have absent: "extractToken None = None"
    by (simp add: extractToken_def)
  from fwd bwd have "extractToken (Some h) = Some t \<longleftrightarrow>
      h = ''Bearer '' @ t \<and> CHR '' '' \<notin> set t"
    by blast
  with absent none show ?thesis by blast
qed

theorem extractToken_spec_witness:
  "extractToken (Some ''Bearer abc'') = Some ''abc'' \<and>
   extractToken (Some ''Bearer '') = Some [] \<and>
   extractToken (Some ''Basic abc'') = None \<and>
   extractToken (Some ''Bearer a b'') = None \<and>
   extractToken (Some ''bearer abc'') = None \<and>
   extractToken (Some '''') = None \<and>
   extractToken None = None"
proof -
  have w1: "extractToken (Some ''Bearer abc'') = Some ''abc''"
    using extractToken_spec [of "''Bearer abc''" "''abc''"] by simp
  have w2: "extractToken (Some ''Bearer '') = Some []"
    using extractToken_spec [of "''Bearer ''" "[]"] by simp
  have w3: "extractToken (Some ''Basic abc'') = None"
    using extractToken_spec [of "''Basic abc''" "[]"] by simp
  have w4: "extractToken (Some ''Bearer a b'') = None"
    using extractToken_spec [of "''Bearer a b''" "[]"] by simp
  have w5: "extractToken (Some ''bearer abc'') = None"
    using extractToken_spec [of "''bearer abc''" "[]"] by simp
  have w6: "extractToken (Some '''') = None"
    using extractToken_spec [of "[]" "[]"] by simp
  have w7: "extractToken None = None"
    using extractToken_spec [of "[]" "[]"] by blast
  from w1 w2 w3 w4 w5 w6 w7 show ?thesis
    by (intro conjI)
qed

















section \<open>Properties of the OAuth session flow\<close>

lemma callback_try_uninitialized:
  "client oidcService = None \<Longrightarrow>
     callback_try oidcService params s = (Inl ServiceNotInitialized, [])"
  by (simp add: callback_try_def getClient_def)

lemma callback_try_missing:
  assumes "client oidcService = Some c"
    and "\<not> truthy (session_nonce s) \<or> \<not> truthy (session_state s)"
  shows "callback_try oidcService params s = (Inl SessionStateMissing, [])"
proof (cases s)
  case None
  with assms(1) show ?thesis by (simp add: callback_try_def getClient_def)
next
  case (Some oa)
  with assms show ?thesis
    by (cases "nonce oa"; cases "state oa")
       (simp_all add: callback_try_def getClient_def session_nonce_def session_state_def
          truthy_def)
qed

lemma callback_try_ready:
  assumes "client oidcService = Some c"
    and "s = Some oa" and "nonce oa = Some nn" and "state oa = Some st"
    and "nn \<noteq> []" and "st \<noteq> []"
  shows "callback_try oidcService params s =
     (case client_callback c (oauth_callbackUrl (config oidcService)) params
             \<lparr>chk_nonce = nn, chk_state = st\<rparr> of
        Inl e \<Rightarrow>
          (Inl e, [ClientCallback (oauth_callbackUrl (config oidcService)) params
                     \<lparr>chk_nonce = nn, chk_state = st\<rparr>])
      | Inr tokenSet \<Rightarrow>
          (case client_userinfo c (access_token tokenSet) of
             Inl e \<Rightarrow>
               (Inl e, [ClientCallback (oauth_callbackUrl (config oidcService)) params
                          \<lparr>chk_nonce = nn, chk_state = st\<rparr>,
                        ClientUserinfo (access_token tokenSet)])
           | Inr ui \<Rightarrow>
               (Inr (Some (oa\<lparr>userInfo := Some ui,
                               accessToken := access_token tokenSet,
                               idToken := id_token tokenSet,
                               refreshToken := refresh_token tokenSet\<rparr>)),
                [ClientCallback (oauth_callbackUrl (config oidcService)) params
                   \<lparr>chk_nonce = nn, chk_state = st\<rparr>,
                 ClientUserinfo (access_token tokenSet)])))"
  using assms
  by (simp add: callback_try_def getClient_def service_callback_def getUserInfo_def Let_def
      split: sum.splits)

lemma callback_error_keeps_session:
  "callback_try oidcService params s = (Inl e, calls) \<Longrightarrow>
     callback oidcService params s = (s, RenderError 500 ''Authentication failed'' e, calls)"
  by (simp add: callback_def)

lemma openid_client_rejects:
  assumes "p_state params \<noteq> Some st \<or>
     (\<exists>tr. token_endpoint idp uri (p_code params) = Inr tr \<and> tr_nonce tr \<noteq> Some nn)"
  shows "client_callback (openid_client idp) uri params \<lparr>chk_nonce = nn, chk_state = st\<rparr> =
     Inl CallbackValidationFailed"
proof (cases "p_state params = Some st")
  case False
  then show ?thesis by (simp add: openid_client_def)
next
  case True
  with assms obtain tr where "token_endpoint idp uri (p_code params) = Inr tr"
    and "tr_nonce tr \<noteq> Some nn"
    by blast
  with True show ?thesis by (simp add: openid_client_def)
qed

text \<open>
  C1, as amended. Let the session be in PendingCallback. If the callback parameters
  carry a \<open>state\<close> other than the stored one, or the token endpoint answers with
  an ID token whose embedded nonce is not the stored one, then \<open>callback\<close> fails
  (the error view, status 500, "Authentication failed") and leaves the session as it
  was: still PendingCallback, not Authenticated, with no user info and no token
  added. The error is \<open>CallbackValidationFailed\<close> when the service holds its
  client, and \<open>ServiceNotInitialized\<close> when it does not.
\<close>

theorem callback_mismatch_fails_closed:
  assumes "client oidcService = None \<or> client oidcService = Some (openid_client idp)"
    and "PendingCallback s"
    and "p_state params \<noteq> session_state s \<or>
       (\<exists>tr. token_endpoint idp (oauth_callbackUrl (config oidcService)) (p_code params) = Inr tr \<and>
             tr_nonce tr \<noteq> session_nonce s)"
  shows "fst (snd (callback oidcService params s)) =
           RenderError 500 ''Authentication failed''
             (if client oidcService = None then ServiceNotInitialized
              else CallbackValidationFailed) \<and>
         fst (callback oidcService params s) = s \<and>
         PendingCallback (fst (callback oidcService params s)) \<and>
         \<not> Authenticated (fst (callback oidcService params s))"
proof -
  from assms(2) obtain oa nn st where s: "s = Some oa"
    and nn: "nonce oa = Some nn" "nn \<noteq> []" and st: "state oa = Some st" "st \<noteq> []"
    and ui: "userInfo oa = None"
    by (cases s; cases "nonce (the s)"; cases "state (the s)")
       (simp_all add: PendingCallback_def truthy_def)
  have na: "\<not> Authenticated s"
    using s ui by (simp add: Authenticated_def)
  show ?thesis
  proof (cases "client oidcService")
    case None
    from callback_error_keeps_session [OF callback_try_uninitialized [OF None]]
    have "callback oidcService params s =
        (s, RenderError 500 ''Authentication failed'' ServiceNotInitialized, [])" .
    then show ?thesis
      using None na assms(2) by simp
  next
    case (Some c)
    with assms(1) have c: "client oidcService = Some (openid_client idp)"
      by simp
    from assms(3) s nn st have
      "p_state params \<noteq> Some st \<or>
         (\<exists>tr. token_endpoint idp (oauth_callbackUrl (config oidcService)) (p_code params) = Inr tr \<and>
               tr_nonce tr \<noteq> Some nn)"
      by (simp add: session_state_def session_nonce_def)
    then have rej: "client_callback (openid_client idp) (oauth_callbackUrl (config oidcService))
        params \<lparr>chk_nonce = nn, chk_state = st\<rparr> = Inl CallbackValidationFailed"
      by (rule openid_client_rejects)
    have "callback_try oidcService params s =
        (Inl CallbackValidationFailed,
         [ClientCallback (oauth_callbackUrl (config oidcService)) params
            \<lparr>chk_nonce = nn, chk_state = st\<rparr>])"
      unfolding callback_try_ready [OF c s nn(1) st(1) nn(2) st(2)]
      by (simp add: rej)
    then have "callback oidcService params s =
        (s, RenderError 500 ''Authentication failed'' CallbackValidationFailed,
         [ClientCallback (oauth_callbackUrl (config oidcService)) params
            \<lparr>chk_nonce = nn, chk_state = st\<rparr>])"
      by (rule callback_error_keeps_session)
    then show ?thesis
      using c na assms(2) by simp
  qed
qed

theorem callback_mismatch_fails_closed_witness:
  "fst (snd (callback ready_service \<lparr>p_code = Some ''c1'', p_state = Some ''other''\<rparr>
               pending_session)) =
     RenderError 500 ''Authentication failed'' CallbackValidationFailed \<and>
   fst (callback ready_service \<lparr>p_code = Some ''c1'', p_state = Some ''other''\<rparr>
          pending_session) = pending_session \<and>
   fst (snd (callback ready_service \<lparr>p_code = Some ''c2'', p_state = Some ''s1''\<rparr>
               pending_session)) =
     RenderError 500 ''Authentication failed'' CallbackValidationFailed \<and>
   fst (callback ready_service \<lparr>p_code = Some ''c2'', p_state = Some ''s1''\<rparr> pending_session) =
     pending_session \<and>
   PendingCallback pending_session"
proof -
  have p: "PendingCallback pending_session"
    by (simp add: PendingCallback_def pending_session_def truthy_def)
  have r: "client ready_service = None \<or> client ready_service = Some (openid_client sample_idp)"
    and r': "client ready_service \<noteq> None"
    by (simp_all add: ready_service_def)
  have m1: "p_state \<lparr>p_code = Some ''c1'', p_state = Some ''other''\<rparr> \<noteq>
      session_state pending_session"
    by (simp add: session_state_def pending_session_def)
  have m2: "\<exists>tr. token_endpoint sample_idp (oauth_callbackUrl (config ready_service))
        (p_code \<lparr>p_code = Some ''c2'', p_state = Some ''s1''\<rparr>) = Inr tr \<and>
      tr_nonce tr \<noteq> session_nonce pending_session"
    by (simp add: sample_idp_def session_nonce_def pending_session_def)
  from callback_mismatch_fails_closed [OF r p disjI1 [OF m1]] r'
  have w1: "fst (snd (callback ready_service \<lparr>p_code = Some ''c1'', p_state = Some ''other''\<rparr>
               pending_session)) =
       RenderError 500 ''Authentication failed'' CallbackValidationFailed"
    and w2: "fst (callback ready_service \<lparr>p_code = Some ''c1'', p_state = Some ''other''\<rparr>
               pending_session) = pending_session"
    by simp_all
  from callback_mismatch_fails_closed [OF r p disjI2 [OF m2]] r'
  have w3: "fst (snd (callback ready_service \<lparr>p_code = Some ''c2'', p_state = Some ''s1''\<rparr>
               pending_session)) =
       RenderError 500 ''Authentication failed'' CallbackValidationFailed"
    and w4: "fst (callback ready_service \<lparr>p_code = Some ''c2'', p_state = Some ''s1''\<rparr>
               pending_session) = pending_session"
    by simp_all
  from w1 w2 w3 w4 p show ?thesis
    by (intro conjI)
qed

text \<open>
  C1 as stated fails: with the OIDC client not initialised, a callback whose
  \<open>state\<close> differs from the one of a PendingCallback session fails with
  \<open>ServiceNotInitialized\<close>, not with \<open>CallbackValidationFailed\<close>. (\<open>login\<close>
  stores the nonce and the state before it asks the service for the authorization
  URL, so such a session exists while the client is missing.)
\<close>

theorem callback_mismatch_uninitialized_counterexample:
  "PendingCallback (fst (login cold_service ''n1'' ''s1'' None)) \<and>
   callback cold_service \<lparr>p_code = Some ''c1'', p_state = Some ''other''\<rparr>
     (fst (login cold_service ''n1'' ''s1'' None)) =
     (fst (login cold_service ''n1'' ''s1'' None),
      RenderError 500 ''Authentication failed'' ServiceNotInitialized, [])"
  by (simp add: callback_def callback_try_def getClient_def cold_service_def login_def
      getAuthorizationUrl_def PendingCallback_def truthy_def)

text \<open>
  C3, as amended. When the session lacks the nonce or the state (no session object,
  a value never set, or an empty one), \<open>callback\<close> fails before \<open>client.callback\<close>
  is invoked, so before any exchange with the token endpoint, and leaves the session
  as it was. The error is \<open>SessionStateMissing\<close> when the OIDC client has been
  initialised; when it has not, \<open>getClient()\<close> has already thrown and the error is
  \<open>ServiceNotInitialized\<close>.
\<close>

theorem callback_session_state_missing:
  assumes "\<not> truthy (session_nonce s) \<or> \<not> truthy (session_state s)"
  shows "callback oidcService params s =
     (s, RenderError 500 ''Authentication failed''
           (if client oidcService = None then ServiceNotInitialized else SessionStateMissing),
      [])"
proof (cases "client oidcService")
  case None
  from callback_error_keeps_session [OF callback_try_uninitialized [OF None]]
  show ?thesis using None by simp
next
  case (Some c)
  from callback_error_keeps_session [OF callback_try_missing [OF Some assms]]
  show ?thesis using Some by simp
qed

theorem callback_session_state_missing_witness:
  "callback ready_service \<lparr>p_code = Some ''c1'', p_state = Some ''s1''\<rparr> None =
     (None, RenderError 500 ''Authentication failed'' SessionStateMissing, [])"
proof -
  have "\<not> truthy (session_nonce None) \<or> \<not> truthy (session_state None)"
    by (simp add: session_nonce_def truthy_def)
  from callback_session_state_missing [OF this, of ready_service]
  show ?thesis by (simp add: ready_service_def)
qed

text \<open>
  C3 as stated fails: with the OIDC client not initialised, a callback on a session
  that never saw \<open>login\<close> fails with \<open>ServiceNotInitialized\<close>, not with
  \<open>SessionStateMissing\<close>.
\<close>

theorem callback_uninitialized_counterexample:
  "callback cold_service \<lparr>p_code = Some ''c1'', p_state = Some ''s1''\<rparr> None =
     (None, RenderError 500 ''Authentication failed'' ServiceNotInitialized, [])"
  by (simp add: callback_def callback_try_def getClient_def cold_service_def)

lemma callback_try_success:
  assumes "callback_try oidcService params s = (Inr s', calls)"
  shows "\<exists>oa ui (tokenSet::TokenSet). s = Some oa \<and> truthy (nonce oa) \<and> truthy (state oa) \<and>
     s' = Some (oa\<lparr>userInfo := Some ui, accessToken := access_token tokenSet,
                   idToken := id_token tokenSet, refreshToken := refresh_token tokenSet\<rparr>)"
proof -
  obtain c where c: "client oidcService = Some c"
    using assms callback_try_uninitialized [of oidcService params s]
    by (cases "client oidcService") simp_all
  have "\<not> (\<not> truthy (session_nonce s) \<or> \<not> truthy (session_state s))"
    using assms callback_try_missing [OF c, of s params] by auto
  then obtain oa nn st where s: "s = Some oa" and n: "nonce oa = Some nn"
    and t: "state oa = Some st" and ne: "nn \<noteq> []" "st \<noteq> []"
    by (cases s; cases "nonce (the s)"; cases "state (the s)")
       (simp_all add: session_nonce_def session_state_def truthy_def)
  note r = callback_try_ready [OF c s n t ne, of params]
  show ?thesis
  proof (cases "client_callback c (oauth_callbackUrl (config oidcService)) params
      \<lparr>chk_nonce = nn, chk_state = st\<rparr>")
    case (Inl e)
    with assms [unfolded r] show ?thesis by simp
  next
    case tok: (Inr tokenSet)
    show ?thesis
    proof (cases "client_userinfo c (access_token tokenSet)")
      case (Inl e)
      with assms [unfolded r] tok show ?thesis by simp
    next
      case (Inr ui)
      with assms [unfolded r] tok have
        "s' = Some (oa\<lparr>userInfo := Some ui, accessToken := access_token tokenSet,
           idToken := id_token tokenSet, refreshToken := refresh_token tokenSet\<rparr>)"
        by simp
      with s n t ne show ?thesis
        by (intro exI [of _ oa] exI [of _ ui] exI [of _ tokenSet]) (simp add: truthy_def)
    qed
  qed
qed

lemma callback_success:
  assumes "callback oidcService params s = (s', Redirect url, calls)"
  shows "\<exists>oa ui (tokenSet::TokenSet). s = Some oa \<and> truthy (nonce oa) \<and> truthy (state oa) \<and>
     s' = Some (oa\<lparr>userInfo := Some ui, accessToken := access_token tokenSet,
                   idToken := id_token tokenSet, refreshToken := refresh_token tokenSet\<rparr>)"
proof -
  from assms have "callback_try oidcService params s = (Inr s', calls)"
    by (cases "callback_try oidcService params s")
       (auto simp: callback_def split: sum.splits)
  then show ?thesis by (rule callback_try_success)
qed

lemma callback_keeps_nonce_state:
  "session_nonce (fst (callback oidcService params s)) = session_nonce s \<and>
   session_state (fst (callback oidcService params s)) = session_state s"
proof (cases "callback_try oidcService params s")
  case (Pair r calls)
  show ?thesis
  proof (cases r)
    case (Inl e)
    with Pair show ?thesis by (simp add: callback_def)
  next
    case (Inr s')
    with Pair have c: "fst (callback oidcService params s) = s'"
      by (simp add: callback_def)
    from Pair Inr have "callback_try oidcService params s = (Inr s', calls)"
      by simp
    from callback_try_success [OF this]
    have "session_nonce s' = session_nonce s \<and> session_state s' = session_state s"
      by (auto simp: session_nonce_def session_state_def)
    with c show ?thesis by simp
  qed
qed

text \<open>
  C9, as amended. A successful \<open>callback\<close> (the one that redirects) stores the
  user info and the three tokens beside the nonce and the state of the session, which
  stay as they were: the session is then Authenticated and still holds both values.
  None of \<open>home\<close>, \<open>profile\<close> and \<open>callback\<close>, whatever its outcome, changes
  the stored nonce or state. \<open>login\<close> does: it replaces them with the fresh
  values, so apart from \<open>logout\<close> it is the one handler after which the values
  set at initiation are no longer stored.
\<close>

theorem nonce_state_survive:
  "(callback oidcService params s = (s', Redirect url, calls) \<longrightarrow>
      Authenticated s' \<and> truthy (session_nonce s') \<and> truthy (session_state s') \<and>
      session_nonce s' = session_nonce s \<and> session_state s' = session_state s \<and>
      (\<exists>oa ui (tokenSet::TokenSet). s = Some oa \<and>
         s' = Some (oa\<lparr>userInfo := Some ui, accessToken := access_token tokenSet,
                       idToken := id_token tokenSet,
                       refreshToken := refresh_token tokenSet\<rparr>))) \<and>
   session_nonce (fst (callback oidcService params s)) = session_nonce s \<and>
   session_state (fst (callback oidcService params s)) = session_state s \<and>
   fst (home s) = s \<and> fst (profile s) = s \<and>
   session_nonce (fst (login oidcService nn st s)) = Some nn \<and>
   session_state (fst (login oidcService nn st s)) = Some st"
proof (intro conjI impI)
  assume a: "callback oidcService params s = (s', Redirect url, calls)"
  from callback_success [OF a] obtain oa ui and tokenSet :: TokenSet where s: "s = Some oa"
    and t: "truthy (nonce oa)" "truthy (state oa)"
    and s': "s' = Some (oa\<lparr>userInfo := Some ui, accessToken := access_token tokenSet,
                   idToken := id_token tokenSet, refreshToken := refresh_token tokenSet\<rparr>)"
    by blast
  show "Authenticated s'" by (simp add: s' Authenticated_def)
  show "truthy (session_nonce s')" using t by (simp add: s' session_nonce_def)
  show "truthy (session_state s')" using t by (simp add: s' session_state_def)
  show "session_nonce s' = session_nonce s" by (simp add: s s' session_nonce_def)
  show "session_state s' = session_state s" by (simp add: s s' session_state_def)
  from s s' show "\<exists>oa ui (tokenSet::TokenSet). s = Some oa \<and>
      s' = Some (oa\<lparr>userInfo := Some ui, accessToken := access_token tokenSet,
                    idToken := id_token tokenSet, refreshToken := refresh_token tokenSet\<rparr>)"
    by blast
next
  show "session_nonce (fst (callback oidcService params s)) = session_nonce s"
    using callback_keeps_nonce_state by blast
  show "session_state (fst (callback oidcService params s)) = session_state s"
    using callback_keeps_nonce_state by blast
  show "fst (home s) = s" by (simp add: home_def split: option.splits)
  show "fst (profile s) = s" by (simp add: profile_def split: option.splits)
  show "session_nonce (fst (login oidcService nn st s)) = Some nn"
    by (simp add: login_def session_nonce_def Let_def split: sum.splits)
  show "session_state (fst (login oidcService nn st s)) = Some st"
    by (simp add: login_def session_state_def Let_def split: sum.splits)
qed

lemma callback_sample:
  "callback ready_service \<lparr>p_code = Some ''c1'', p_state = Some ''s1''\<rparr> pending_session =
     (authenticated_session, Redirect ''/oauth'',
      [ClientCallback ''http://localhost:3000/oauth/callback''
         \<lparr>p_code = Some ''c1'', p_state = Some ''s1''\<rparr>
         \<lparr>chk_nonce = ''n1'', chk_state = ''s1''\<rparr>,
       ClientUserinfo (Some ''at'')])"
  by (simp add: callback_def callback_try_def getClient_def ready_service_def
      pending_session_def authenticated_session_def service_callback_def getUserInfo_def
      sample_config_def openid_client_def sample_idp_def sample_tokens_def)

theorem nonce_state_survive_witness:
  "callback ready_service \<lparr>p_code = Some ''c1'', p_state = Some ''s1''\<rparr> pending_session =
     (authenticated_session, Redirect ''/oauth'',
      [ClientCallback ''http://localhost:3000/oauth/callback''
         \<lparr>p_code = Some ''c1'', p_state = Some ''s1''\<rparr>
         \<lparr>chk_nonce = ''n1'', chk_state = ''s1''\<rparr>,
       ClientUserinfo (Some ''at'')]) \<and>
   Authenticated authenticated_session \<and>
   session_nonce authenticated_session = Some ''n1'' \<and>
   session_state authenticated_session = Some ''s1''"
proof -
  note c = callback_sample
  from nonce_state_survive
    [of ready_service "\<lparr>p_code = Some ''c1'', p_state = Some ''s1''\<rparr>" pending_session
      authenticated_session "''/oauth''" _ "[]" "[]"] c
  have "Authenticated authenticated_session"
    and "session_nonce authenticated_session = session_nonce pending_session"
    and "session_state authenticated_session = session_state pending_session"
    by simp_all
  with c show ?thesis
    by (simp add: session_nonce_def session_state_def pending_session_def)
qed

text \<open>
  C9 as stated fails: \<open>login\<close> is an operation other than \<open>logout\<close> that removes
  the nonce and the state set at initiation. On the Authenticated session that the
  callback has just produced, it leaves the fresh values in their place.
\<close>

theorem login_replaces_nonce_counterexample:
  "fst (callback ready_service \<lparr>p_code = Some ''c1'', p_state = Some ''s1''\<rparr>
          pending_session) = authenticated_session \<and>
   session_nonce authenticated_session = Some ''n1'' \<and>
   session_state authenticated_session = Some ''s1'' \<and>
   session_nonce (fst (login ready_service ''n2'' ''s2'' authenticated_session)) = Some ''n2'' \<and>
   session_state (fst (login ready_service ''n2'' ''s2'' authenticated_session)) = Some ''s2''"
proof -
  have c: "fst (callback ready_service \<lparr>p_code = Some ''c1'', p_state = Some ''s1''\<rparr>
      pending_session) = authenticated_session"
    by (simp add: callback_sample)
  have before: "session_nonce authenticated_session = Some ''n1''"
    "session_state authenticated_session = Some ''s1''"
    by (simp_all add: session_nonce_def session_state_def authenticated_session_def)
  have after: "session_nonce (fst (login ready_service ''n2'' ''s2'' authenticated_session)) =
      Some ''n2''"
    "session_state (fst (login ready_service ''n2'' ''s2'' authenticated_session)) = Some ''s2''"
    by (simp_all add: login_def session_nonce_def session_state_def Let_def split: sum.splits)
  from c before after show ?thesis by (intro conjI)
qed

text \<open>
  C10. \<open>login\<close> assigns the object \<open>{nonce, state}\<close> to \<open>req.session.oauth\<close>: for
  every session and every state of the service, the session afterwards holds the
  fresh nonce and state and nothing else, so the user info and the tokens of an
  Authenticated session are gone. With non-empty fresh values the session is then in
  PendingCallback, whatever it was before.
\<close>

theorem login_replaces_session:
  "fst (login oidcService nn st s) =
     Some \<lparr>nonce = Some nn, state = Some st, userInfo = None, accessToken = None,
           idToken = None, refreshToken = None\<rparr> \<and>
   (nn \<noteq> [] \<and> st \<noteq> [] \<longrightarrow>
      PendingCallback (fst (login oidcService nn st s)) \<and>
      \<not> Authenticated (fst (login oidcService nn st s)))"
proof -
  have l: "fst (login oidcService nn st s) =
     Some \<lparr>nonce = Some nn, state = Some st, userInfo = None, accessToken = None,
           idToken = None, refreshToken = None\<rparr>"
    by (simp add: login_def Let_def split: sum.splits)
  show ?thesis
    unfolding l by (simp add: PendingCallback_def Authenticated_def truthy_def)
qed

theorem login_replaces_session_witness:
  "Authenticated authenticated_session \<and>
   PendingCallback (fst (login ready_service ''n2'' ''s2'' authenticated_session)) \<and>
   fst (login ready_service ''n2'' ''s2'' authenticated_session) =
     Some \<lparr>nonce = Some ''n2'', state = Some ''s2'', userInfo = None, accessToken = None,
           idToken = None, refreshToken = None\<rparr> \<and>
   fst (login cold_service ''n2'' ''s2'' authenticated_session) =
     Some \<lparr>nonce = Some ''n2'', state = Some ''s2'', userInfo = None, accessToken = None,
           idToken = None, refreshToken = None\<rparr>"
proof -
  have a: "Authenticated authenticated_session"
    by (simp add: Authenticated_def authenticated_session_def)
  have ne: "''n2'' \<noteq> [] \<and> ''s2'' \<noteq> []"
    by simp
  note ready = login_replaces_session [of ready_service "''n2''" "''s2''" authenticated_session]
  note cold = login_replaces_session [of cold_service "''n2''" "''s2''" authenticated_session]
  from ready ne have p: "PendingCallback (fst (login ready_service ''n2'' ''s2''
      authenticated_session))"
    by blast
  from a p ready [THEN conjunct1] cold [THEN conjunct1] show ?thesis
    by (intro conjI)
qed

lemma logout_unfold:
  "logout destroy encodeURIComponent oidcService s =
     \<lparr>session_after = snd (destroy s),
      log_after = (case fst (destroy s) of None \<Rightarrow> []
                   | Some e \<Rightarrow> [LogError ''Session destroy error:'']),
      steps = [DestroySession,
               SendRedirect (getLogoutUrl encodeURIComponent oidcService
                               (cognito_clientId (config oidcService)))],
      sent = Redirect (getLogoutUrl encodeURIComponent oidcService
                         (cognito_clientId (config oidcService)))\<rparr>"
  by (simp add: logout_def Let_def split: prod.splits)

text \<open>
  C4, as amended. \<open>logout\<close> calls the destroy operation before it issues the
  redirect, and it always issues the redirect to the provider's logout endpoint; an
  error of the destroy operation is logged and does not block the redirect. The
  handler clears nothing itself: the session is left as the destroy operation leaves
  it, so the authentication state is gone when the destroy operation removed the
  session.
\<close>

theorem logout_best_effort:
  "steps (logout destroy encodeURIComponent oidcService s) =
     [DestroySession,
      SendRedirect (getLogoutUrl encodeURIComponent oidcService
                      (cognito_clientId (config oidcService)))] \<and>
   sent (logout destroy encodeURIComponent oidcService s) =
     Redirect (getLogoutUrl encodeURIComponent oidcService
                 (cognito_clientId (config oidcService))) \<and>
   session_after (logout destroy encodeURIComponent oidcService s) = snd (destroy s) \<and>
   (fst (destroy s) \<noteq> None \<longrightarrow>
      log_after (logout destroy encodeURIComponent oidcService s) =
        [LogError ''Session destroy error:'']) \<and>
   (fst (destroy s) = None \<longrightarrow>
      log_after (logout destroy encodeURIComponent oidcService s) = []) \<and>
   (snd (destroy s) = None \<longrightarrow>
      \<not> Authenticated (session_after (logout destroy encodeURIComponent oidcService s)))"
  unfolding logout_unfold
  by (cases "fst (destroy s)") (simp_all add: Authenticated_def)

theorem logout_best_effort_witness:
  "session_after (logout working_destroy id ready_service authenticated_session) = None \<and>
   \<not> Authenticated (session_after (logout working_destroy id ready_service
                                      authenticated_session)) \<and>
   log_after (logout working_destroy id ready_service authenticated_session) = [] \<and>
   log_after (logout failing_destroy id ready_service authenticated_session) =
     [LogError ''Session destroy error:''] \<and>
   sent (logout failing_destroy id ready_service authenticated_session) =
     Redirect ''https://idp.auth.us-east-1.amazoncognito.com/logout?client_id=client1&logout_uri=http://localhost:3000''"
proof -
  note w = logout_best_effort [of working_destroy id ready_service authenticated_session]
  note f = logout_best_effort [of failing_destroy id ready_service authenticated_session]
  have gone: "snd (working_destroy authenticated_session) = None"
    and quiet: "fst (working_destroy authenticated_session) = None"
    and loud: "fst (failing_destroy authenticated_session) \<noteq> None"
    by (simp_all add: working_destroy_def failing_destroy_def)
  have url: "getLogoutUrl id ready_service (cognito_clientId (config ready_service)) =
      ''https://idp.auth.us-east-1.amazoncognito.com/logout?client_id=client1&logout_uri=http://localhost:3000''"
    by (simp add: getLogoutUrl_def ready_service_def sample_config_def)
  from w gone have w1: "session_after (logout working_destroy id ready_service
      authenticated_session) = None"
    by simp
  from w gone have w2: "\<not> Authenticated (session_after (logout working_destroy id
      ready_service authenticated_session))"
    by blast
  from w quiet have w3: "log_after (logout working_destroy id ready_service
      authenticated_session) = []"
    by blast
  from f loud have f1: "log_after (logout failing_destroy id ready_service
      authenticated_session) = [LogError ''Session destroy error:'']"
    by blast
  from f have f2: "sent (logout failing_destroy id ready_service authenticated_session) =
      Redirect (getLogoutUrl id ready_service (cognito_clientId (config ready_service)))"
    by blast
  from w1 w2 w3 f1 f2 [unfolded url] show ?thesis
    by (intro conjI)
qed

text \<open>
  C4 as stated fails: when the destroy operation errors and the store keeps the
  session, the session still holds the user info and the tokens after \<open>logout\<close>; the
  error is logged and the redirect is sent.
\<close>

theorem logout_destroy_error_counterexample:
  "session_after (logout failing_destroy id ready_service authenticated_session) =
     authenticated_session \<and>
   Authenticated (session_after (logout failing_destroy id ready_service
                                   authenticated_session)) \<and>
   log_after (logout failing_destroy id ready_service authenticated_session) =
     [LogError ''Session destroy error:'']"
  by (simp add: logout_unfold failing_destroy_def Authenticated_def authenticated_session_def)

section \<open>Properties of the validators and the gateway endpoints\<close>

lemma accepted_append: "accepted f (xs @ ys) \<longleftrightarrow> accepted f xs \<and> accepted f ys"
  by (simp add: accepted_def)

lemma accepted_failing:
  "accepted f (failing g check ok) \<longleftrightarrow> (ok \<or> g \<noteq> f)"
  by (simp add: accepted_def failing_def)

lemma accepted_optional:
  "accepted f (optional v fs) \<longleftrightarrow> (v = None \<or> accepted f fs)"
  by (cases v) (simp_all add: accepted_def optional_def)

lemma username_accepted:
  "accepted ''username'' (signUpValidator isEmail isMobilePhone body) \<longleftrightarrow>
     isLength 3 (Some 20) (toString (username body)) \<and>
     isAlphanumeric (toString (username body))"
  by (simp add: signUpValidator_def accepted_append accepted_failing accepted_optional)

lemma password_accepted:
  "accepted ''password'' (signUpValidator isEmail isMobilePhone body) \<longleftrightarrow>
     isLength 8 None (toString (password body)) \<and>
     password_pattern (toString (password body))"
  by (simp add: signUpValidator_def accepted_append accepted_failing accepted_optional)

lemma lookahead_occurs: "lookahead cls str \<Longrightarrow> \<exists>c \<in> set str. c \<in> set cls"
  unfolding lookahead_def list_ex_iff
  by (meson set_takeWhileD)

text \<open>
  C7. In \<open>signUpValidator\<close> a username of 3 or of 20 characters, all of them letters or
  digits, passes the username checks, and a username of 2 or of 21 characters fails
  them. A password fails the password checks when it has fewer than 8 characters or
  has no lowercase letter, no uppercase letter, no digit, or no special character
  (the pattern's specials are \<open>@$!%*?&\<close>).
\<close>

theorem signUpValidator_boundaries:
  "((length u = 3 \<or> length u = 20) \<and>
      (\<forall>c \<in> set u. c \<in> set (lower_chars @ upper_chars @ digit_chars))
      \<longrightarrow> accepted ''username''
            (signUpValidator isEmail isMobilePhone (body\<lparr>username := Some u\<rparr>))) \<and>
   (length u = 2 \<or> length u = 21
      \<longrightarrow> \<not> accepted ''username''
              (signUpValidator isEmail isMobilePhone (body\<lparr>username := Some u\<rparr>))) \<and>
   (length p < 8 \<or> set p \<inter> set lower_chars = {} \<or> set p \<inter> set upper_chars = {} \<or>
    set p \<inter> set digit_chars = {} \<or> set p \<inter> set special_chars = {}
      \<longrightarrow> \<not> accepted ''password''
              (signUpValidator isEmail isMobilePhone (body\<lparr>password := Some p\<rparr>)))"
proof (intro conjI impI)
  assume a: "(length u = 3 \<or> length u = 20) \<and>
      (\<forall>c \<in> set u. c \<in> set (lower_chars @ upper_chars @ digit_chars))"
  then have "u \<noteq> []" by auto
  moreover from a have "list_all (\<lambda>c. c \<in> set (digit_chars @ upper_chars @ lower_chars)) u"
    unfolding list_all_iff by auto
  moreover from a have "isLength 3 (Some 20) u"
    by (auto simp: isLength_def)
  ultimately show "accepted ''username''
      (signUpValidator isEmail isMobilePhone (body\<lparr>username := Some u\<rparr>))"
    unfolding username_accepted by (simp add: toString_def isAlphanumeric_def)
next
  assume "length u = 2 \<or> length u = 21"
  then have "\<not> isLength 3 (Some 20) u"
    by (auto simp: isLength_def)
  then show "\<not> accepted ''username''
      (signUpValidator isEmail isMobilePhone (body\<lparr>username := Some u\<rparr>))"
    unfolding username_accepted by (simp add: toString_def)
next
  assume a: "length p < 8 \<or> set p \<inter> set lower_chars = {} \<or> set p \<inter> set upper_chars = {} \<or>
    set p \<inter> set digit_chars = {} \<or> set p \<inter> set special_chars = {}"
  have "\<not> (isLength 8 None p \<and> password_pattern p)"
  proof
    assume ok: "isLength 8 None p \<and> password_pattern p"
    then have "8 \<le> length p" by (simp add: isLength_def)
    moreover from ok have "lookahead lower_chars p" "lookahead upper_chars p"
      "lookahead digit_chars p" "lookahead special_chars p"
      by (simp_all add: password_pattern_def)
    then have "set p \<inter> set lower_chars \<noteq> {}" "set p \<inter> set upper_chars \<noteq> {}"
      "set p \<inter> set digit_chars \<noteq> {}" "set p \<inter> set special_chars \<noteq> {}"
      using lookahead_occurs by blast+
    ultimately show False using a by auto
  qed
  then show "\<not> accepted ''password''
      (signUpValidator isEmail isMobilePhone (body\<lparr>password := Some p\<rparr>))"
    unfolding password_accepted by (simp add: toString_def)
qed

theorem signUpValidator_boundaries_witness:
  "accepted ''username'' (signUpValidator (\<lambda>s. True) (\<lambda>s. True)
     (sample_body\<lparr>username := Some ''abc''\<rparr>)) \<and>
   accepted ''username'' (signUpValidator (\<lambda>s. True) (\<lambda>s. True)
     (sample_body\<lparr>username := Some ''abcdefghij0123456789''\<rparr>)) \<and>
   \<not> accepted ''username'' (signUpValidator (\<lambda>s. True) (\<lambda>s. True)
     (sample_body\<lparr>username := Some ''ab''\<rparr>)) \<and>
   \<not> accepted ''username'' (signUpValidator (\<lambda>s. True) (\<lambda>s. True)
     (sample_body\<lparr>username := Some ''abcdefghij0123456789a''\<rparr>)) \<and>
   \<not> accepted ''password'' (signUpValidator (\<lambda>s. True) (\<lambda>s. True)
     (sample_body\<lparr>password := Some ''Aa1!aaa''\<rparr>)) \<and>
   \<not> accepted ''password'' (signUpValidator (\<lambda>s. True) (\<lambda>s. True)
     (sample_body\<lparr>password := Some ''AA1!AAAA''\<rparr>)) \<and>
   \<not> accepted ''password'' (signUpValidator (\<lambda>s. True) (\<lambda>s. True)
     (sample_body\<lparr>password := Some ''aa1!aaaa''\<rparr>)) \<and>
   \<not> accepted ''password'' (signUpValidator (\<lambda>s. True) (\<lambda>s. True)
     (sample_body\<lparr>password := Some ''Aa!!aaaa''\<rparr>)) \<and>
   \<not> accepted ''password'' (signUpValidator (\<lambda>s. True) (\<lambda>s. True)
     (sample_body\<lparr>password := Some ''Aa11aaaa''\<rparr>))"
proof -
  note b = signUpValidator_boundaries [where isEmail = "\<lambda>s. True"
      and isMobilePhone = "\<lambda>s. True" and body = sample_body]
  have u3: "accepted ''username'' (signUpValidator (\<lambda>s. True) (\<lambda>s. True)
      (sample_body\<lparr>username := Some ''abc''\<rparr>))"
    using b [of "''abc''"] by (simp add: lower_chars_def)
  have u20: "accepted ''username'' (signUpValidator (\<lambda>s. True) (\<lambda>s. True)
      (sample_body\<lparr>username := Some ''abcdefghij0123456789''\<rparr>))"
    using b [of "''abcdefghij0123456789''"] by (simp add: lower_chars_def digit_chars_def)
  have u2: "\<not> accepted ''username'' (signUpValidator (\<lambda>s. True) (\<lambda>s. True)
      (sample_body\<lparr>username := Some ''ab''\<rparr>))"
    using b [of "''ab''"] by simp
  have u21: "\<not> accepted ''username'' (signUpValidator (\<lambda>s. True) (\<lambda>s. True)
      (sample_body\<lparr>username := Some ''abcdefghij0123456789a''\<rparr>))"
    using b [of "''abcdefghij0123456789a''"] by simp
  have short: "\<not> accepted ''password'' (signUpValidator (\<lambda>s. True) (\<lambda>s. True)
      (sample_body\<lparr>password := Some ''Aa1!aaa''\<rparr>))"
    using b [of _ "''Aa1!aaa''"] by simp
  have lower: "\<not> accepted ''password'' (signUpValidator (\<lambda>s. True) (\<lambda>s. True)
      (sample_body\<lparr>password := Some ''AA1!AAAA''\<rparr>))"
    using b [of _ "''AA1!AAAA''"] by (simp add: lower_chars_def)
  have upper: "\<not> accepted ''password'' (signUpValidator (\<lambda>s. True) (\<lambda>s. True)
      (sample_body\<lparr>password := Some ''aa1!aaaa''\<rparr>))"
    using b [of _ "''aa1!aaaa''"] by (simp add: upper_chars_def)
  have digit: "\<not> accepted ''password'' (signUpValidator (\<lambda>s. True) (\<lambda>s. True)
      (sample_body\<lparr>password := Some ''Aa!!aaaa''\<rparr>))"
    using b [of _ "''Aa!!aaaa''"] by (simp add: digit_chars_def)
  have special: "\<not> accepted ''password'' (signUpValidator (\<lambda>s. True) (\<lambda>s. True)
      (sample_body\<lparr>password := Some ''Aa11aaaa''\<rparr>))"
    using b [of _ "''Aa11aaaa''"] by (simp add: special_chars_def)
  from u3 u20 u2 u21 short lower upper digit special show ?thesis
    by (intro conjI)
qed

lemma signIn_tokens_only_on_success:
  "reply_tokens (signIn result) = Some t \<Longrightarrow> \<exists>r. result = Inr r \<and> tokens r = t"
  by (cases result) (simp_all add: signIn_def reply_tokens_def split: if_splits)

lemma CognitoService_signIn_error:
  "InitiateAuth pool (si_username data) (si_password data) = Inl e \<Longrightarrow>
     CognitoService_signIn pool data = Inl e"
  by (simp add: CognitoService_signIn_def)

text \<open>
  C8, as amended. Each handler of \<open>AuthController\<close> and \<open>UserController\<close>
  translates the provider error classes it names, and the status of a class is the
  same in every handler that names it: \<open>signUp\<close> and \<open>adminCreateUser\<close> answer a
  \<open>UsernameExistsException\<close> with 409, \<open>signIn\<close>, \<open>changePassword\<close> and
  \<open>refreshToken\<close> answer a \<open>NotAuthorizedException\<close> with 401, \<open>signIn\<close>
  answers a \<open>UserNotConfirmedException\<close> with 403, and \<open>forgotPassword\<close> and
  \<open>adminDeleteUser\<close> answer a \<open>UserNotFoundException\<close> with 404 (the other
  classes named, an invalid password and a wrong or expired code, are answered with
  400). In every handler an error of a class it does not name is handed to \<open>next\<close>
  untranslated. When the user pool refuses the credentials with a
  \<open>NotAuthorizedException\<close> (a wrong password), \<open>signIn\<close> answers 401 with the
  body \<open>{error: "Invalid username or password"}\<close>; and a reply of \<open>signIn\<close>
  carries tokens only when the service call succeeded, in which case they are the
  tokens the pool issued.
\<close>

theorem error_translation_table:
  "(err_name e = ''UsernameExistsException'' \<longrightarrow>
      signUp (Inl e) = Json 409 (ErrorBody ''Username already exists'') \<and>
      adminCreateUser (Inl e) = Json 409 (ErrorBody ''Username already exists'')) \<and>
   (err_name e = ''NotAuthorizedException'' \<longrightarrow>
      signIn (Inl e) = Json 401 (ErrorBody ''Invalid username or password'') \<and>
      changePassword (Inl e) = Json 401 (ErrorBody ''Invalid current password'') \<and>
      refreshToken_handler (Inl e) = Json 401 (ErrorBody ''Invalid refresh token'')) \<and>
   (err_name e = ''UserNotConfirmedException'' \<longrightarrow>
      signIn (Inl e) = Json 403 (ErrorBody ''User email not verified'')) \<and>
   (err_name e = ''UserNotFoundException'' \<longrightarrow>
      forgotPassword (Inl e) = Json 404 (ErrorBody ''User not found'') \<and>
      adminDeleteUser (Inl e) = Json 404 (ErrorBody ''User not found'')) \<and>
   (InitiateAuth pool (si_username data) (si_password data) = Inl e \<and>
    err_name e = ''NotAuthorizedException'' \<longrightarrow>
      signIn (CognitoService_signIn pool data) =
        Json 401 (ErrorBody ''Invalid username or password'') \<and>
      reply_tokens (signIn (CognitoService_signIn pool data)) = None) \<and>
   (\<forall>t. reply_tokens (signIn (CognitoService_signIn pool data)) = Some t \<longrightarrow>
        InitiateAuth pool (si_username data) (si_password data) = Inr (Some t)) \<and>
   (err_name e \<notin> {''UsernameExistsException'', ''InvalidPasswordException''} \<longrightarrow>
      signUp (Inl e) = NextError e) \<and>
   (err_name e \<notin> {''NotAuthorizedException'', ''UserNotConfirmedException''} \<longrightarrow>
      signIn (Inl e) = NextError e) \<and>
   (err_name e \<noteq> ''UserNotFoundException'' \<longrightarrow> forgotPassword (Inl e) = NextError e) \<and>
   (err_name e \<noteq> ''NotAuthorizedException'' \<longrightarrow>
      changePassword (Inl e) = NextError e \<and> refreshToken_handler (Inl e) = NextError e) \<and>
   (err_name e \<noteq> ''UsernameExistsException'' \<longrightarrow> adminCreateUser (Inl e) = NextError e) \<and>
   (err_name e \<noteq> ''UserNotFoundException'' \<longrightarrow> adminDeleteUser (Inl e) = NextError e) \<and>
   (err_name e \<notin> {''CodeMismatchException'', ''ExpiredCodeException''} \<longrightarrow>
      verifyEmail (Inl e) = NextError e \<and> resetPassword (Inl e) = NextError e) \<and>
   resendVerificationCode (Inl e) = NextError e \<and>
   signOut (Inl e) = NextError e \<and>
   getProfile (Inl e) = NextError e \<and>
   updateProfile (Inl e) = NextError e \<and>
   deleteAccount (Inl e) = NextError e \<and>
   listUsers (Inl e) = NextError e \<and>
   (err_name e = ''InvalidPasswordException'' \<longrightarrow>
      signUp (Inl e) = Json 400 (ErrorBody ''Invalid password format'')) \<and>
   (err_name e = ''CodeMismatchException'' \<longrightarrow>
      verifyEmail (Inl e) = Json 400 (ErrorBody ''Invalid verification code'') \<and>
      resetPassword (Inl e) = Json 400 (ErrorBody ''Invalid reset code'')) \<and>
   (err_name e = ''ExpiredCodeException'' \<longrightarrow>
      verifyEmail (Inl e) = Json 400 (ErrorBody ''Verification code has expired'') \<and>
      resetPassword (Inl e) = Json 400 (ErrorBody ''Reset code has expired''))"
proof (intro conjI impI allI)
  assume "err_name e = ''UsernameExistsException''"
  then show "signUp (Inl e) = Json 409 (ErrorBody ''Username already exists'')"
    and "adminCreateUser (Inl e) = Json 409 (ErrorBody ''Username already exists'')"
    by (simp_all add: signUp_def adminCreateUser_def)
next
  assume "err_name e = ''NotAuthorizedException''"
  then show "signIn (Inl e) = Json 401 (ErrorBody ''Invalid username or password'')"
    and "changePassword (Inl e) = Json 401 (ErrorBody ''Invalid current password'')"
    and "refreshToken_handler (Inl e) = Json 401 (ErrorBody ''Invalid refresh token'')"
    by (simp_all add: signIn_def changePassword_def refreshToken_handler_def)
next
  assume "err_name e = ''UserNotConfirmedException''"
  then show "signIn (Inl e) = Json 403 (ErrorBody ''User email not verified'')"
    by (simp add: signIn_def)
next
  assume "err_name e = ''UserNotFoundException''"
  then show "forgotPassword (Inl e) = Json 404 (ErrorBody ''User not found'')"
    and "adminDeleteUser (Inl e) = Json 404 (ErrorBody ''User not found'')"
    by (simp_all add: forgotPassword_def adminDeleteUser_def)
next
  assume a: "InitiateAuth pool (si_username data) (si_password data) = Inl e \<and>
    err_name e = ''NotAuthorizedException''"
  then have s: "CognitoService_signIn pool data = Inl e"
    by (simp add: CognitoService_signIn_error)
  from a show r: "signIn (CognitoService_signIn pool data) =
      Json 401 (ErrorBody ''Invalid username or password'')"
    unfolding s by (simp add: signIn_def)
  show "reply_tokens (signIn (CognitoService_signIn pool data)) = None"
    unfolding r by (simp add: reply_tokens_def)
next
  fix t
  assume "reply_tokens (signIn (CognitoService_signIn pool data)) = Some t"
  from signIn_tokens_only_on_success [OF this] obtain r
    where r: "CognitoService_signIn pool data = Inr r" and t: "tokens r = t"
    by blast
  from r t show "InitiateAuth pool (si_username data) (si_password data) = Inr (Some t)"
    by (auto simp: CognitoService_signIn_def split: sum.splits option.splits)
next
  assume "err_name e \<notin> {''UsernameExistsException'', ''InvalidPasswordException''}"
  then show "signUp (Inl e) = NextError e"
    by (simp add: signUp_def)
next
  assume "err_name e \<notin> {''NotAuthorizedException'', ''UserNotConfirmedException''}"
  then show "signIn (Inl e) = NextError e"
    by (simp add: signIn_def)
next
  assume "err_name e \<noteq> ''UserNotFoundException''"
  then show "forgotPassword (Inl e) = NextError e"
    by (simp add: forgotPassword_def)
next
  assume "err_name e \<noteq> ''NotAuthorizedException''"
  then show "changePassword (Inl e) = NextError e"
    and "refreshToken_handler (Inl e) = NextError e"
    by (simp_all add: changePassword_def refreshToken_handler_def)
next
  assume "err_name e \<noteq> ''UsernameExistsException''"
  then show "adminCreateUser (Inl e) = NextError e"
    by (simp add: adminCreateUser_def)
next
  assume "err_name e \<noteq> ''UserNotFoundException''"
  then show "adminDeleteUser (Inl e) = NextError e"
    by (simp add: adminDeleteUser_def)
next
  assume "err_name e \<notin> {''CodeMismatchException'', ''ExpiredCodeException''}"
  then show "verifyEmail (Inl e) = NextError e" and "resetPassword (Inl e) = NextError e"
    by (simp_all add: verifyEmail_def resetPassword_def)
next
  show "resendVerificationCode (Inl e) = NextError e"
    by (simp add: resendVerificationCode_def)
  show "signOut (Inl e) = NextError e"
    by (simp add: signOut_def)
  show "getProfile (Inl e) = NextError e"
    by (simp add: getProfile_def)
  show "updateProfile (Inl e) = NextError e"
    by (simp add: updateProfile_def)
  show "deleteAccount (Inl e) = NextError e"
    by (simp add: deleteAccount_def)
  show "listUsers (Inl e) = NextError e"
    by (simp add: listUsers_def)
next
  assume "err_name e = ''InvalidPasswordException''"
  then show "signUp (Inl e) = Json 400 (ErrorBody ''Invalid password format'')"
    by (simp add: signUp_def)
next
  assume "err_name e = ''CodeMismatchException''"
  then show "verifyEmail (Inl e) = Json 400 (ErrorBody ''Invalid verification code'')"
    and "resetPassword (Inl e) = Json 400 (ErrorBody ''Invalid reset code'')"
    by (simp_all add: verifyEmail_def resetPassword_def)
next
  assume "err_name e = ''ExpiredCodeException''"
  then show "verifyEmail (Inl e) = Json 400 (ErrorBody ''Verification code has expired'')"
    and "resetPassword (Inl e) = Json 400 (ErrorBody ''Reset code has expired'')"
    by (simp_all add: verifyEmail_def resetPassword_def)
qed

theorem error_translation_table_witness:
  "signUp (Inl \<lparr>err_name = ''UsernameExistsException'', err_message = ''User exists''\<rparr>) =
     (Json 409 (ErrorBody ''Username already exists'') :: unit reply) \<and>
   signIn (Inl \<lparr>err_name = ''UserNotConfirmedException'', err_message = []\<rparr>) =
     (Json 403 (ErrorBody ''User email not verified'') :: unit reply) \<and>
   forgotPassword (Inl \<lparr>err_name = ''UserNotFoundException'', err_message = []\<rparr>) =
     Json 404 (ErrorBody ''User not found'') \<and>
   signIn (CognitoService_signIn sample_pool
             \<lparr>si_username = ''abc123'', si_password = ''wrong''\<rparr>) =
     Json 401 (ErrorBody ''Invalid username or password'') \<and>
   reply_tokens (signIn (CognitoService_signIn sample_pool
                           \<lparr>si_username = ''abc123'', si_password = ''wrong''\<rparr>)) = None \<and>
   reply_tokens (signIn (CognitoService_signIn sample_pool
                           \<lparr>si_username = ''abc123'', si_password = ''Aa1!aaaa''\<rparr>)) =
     Some \<lparr>AccessToken = Some ''at'', IdToken = Some ''it'', RefreshToken = Some ''rt''\<rparr>"
proof -
  have w1: "signUp (Inl \<lparr>err_name = ''UsernameExistsException'',
        err_message = ''User exists''\<rparr>) =
      (Json 409 (ErrorBody ''Username already exists'') :: unit reply)"
    by (rule error_translation_table
          [of "\<lparr>err_name = ''UsernameExistsException'', err_message = ''User exists''\<rparr>",
            THEN conjunct1, THEN mp, THEN conjunct1])
       simp
  have w2: "signIn (Inl \<lparr>err_name = ''UserNotConfirmedException'', err_message = []\<rparr>) =
      (Json 403 (ErrorBody ''User email not verified'') :: unit reply)"
    by (rule error_translation_table
          [of "\<lparr>err_name = ''UserNotConfirmedException'', err_message = []\<rparr>",
            THEN conjunct2, THEN conjunct2, THEN conjunct1, THEN mp])
       simp
  have w3: "forgotPassword (Inl \<lparr>err_name = ''UserNotFoundException'', err_message = []\<rparr>) =
      Json 404 (ErrorBody ''User not found'')"
    by (rule error_translation_table
          [of "\<lparr>err_name = ''UserNotFoundException'', err_message = []\<rparr>",
            THEN conjunct2, THEN conjunct2, THEN conjunct2, THEN conjunct1, THEN mp,
            THEN conjunct1])
       simp
  have i: "InitiateAuth sample_pool
      (si_username \<lparr>si_username = ''abc123'', si_password = ''wrong''\<rparr>)
      (si_password \<lparr>si_username = ''abc123'', si_password = ''wrong''\<rparr>) =
      Inl \<lparr>err_name = ''NotAuthorizedException'',
           err_message = ''Incorrect username or password.''\<rparr>"
    by (simp add: sample_pool_def)
  have w4: "signIn (CognitoService_signIn sample_pool
        \<lparr>si_username = ''abc123'', si_password = ''wrong''\<rparr>) =
      Json 401 (ErrorBody ''Invalid username or password'') \<and>
    reply_tokens (signIn (CognitoService_signIn sample_pool
        \<lparr>si_username = ''abc123'', si_password = ''wrong''\<rparr>)) = None"
    by (rule error_translation_table
          [of "\<lparr>err_name = ''NotAuthorizedException'',
                err_message = ''Incorrect username or password.''\<rparr>"
            sample_pool "\<lparr>si_username = ''abc123'', si_password = ''wrong''\<rparr>",
            THEN conjunct2, THEN conjunct2, THEN conjunct2, THEN conjunct2, THEN conjunct1,
            THEN mp])
       (use i in simp)
  have w5: "reply_tokens (signIn (CognitoService_signIn sample_pool
        \<lparr>si_username = ''abc123'', si_password = ''Aa1!aaaa''\<rparr>)) =
      Some \<lparr>AccessToken = Some ''at'', IdToken = Some ''it'', RefreshToken = Some ''rt''\<rparr>"
    by (simp add: CognitoService_signIn_def sample_pool_def signIn_def reply_tokens_def)
  from w1 w2 w3 w4 [THEN conjunct1] w4 [THEN conjunct2] w5 show ?thesis
    by (intro conjI)
qed

text \<open>
  C8 as stated fails: the statuses are not one table applied by the gateway. A
  \<open>UserNotFoundException\<close> met by \<open>signIn\<close> is not answered with 404; the
  handler hands it to \<open>next\<close>, and the generic handler answers 500.
\<close>

theorem signIn_not_found_counterexample:
  "(signIn (Inl \<lparr>err_name = ''UserNotFoundException'',
                  err_message = ''User does not exist.''\<rparr>) :: unit reply) =
     NextError \<lparr>err_name = ''UserNotFoundException'',
                 err_message = ''User does not exist.''\<rparr> \<and>
   http_status (signIn (Inl \<lparr>err_name = ''UserNotFoundException'',
                              err_message = ''User does not exist.''\<rparr>) :: unit reply) = 500"
  by (simp add: signIn_def http_status_def errorHandler_def)

end
